theory Spec2Isabelle
  imports Complex_Main "HOL-Library.Multiset"
begin

section \<open>Data model\<close>

text \<open>
  The service keeps two collections, employees and offices, behind Mongoose models and
  serves them through two Express routers. Every handler is an \<^verbatim>\<open>async (req, res)\<close>
  function whose body is a \<^verbatim>\<open>try\<close>/\<^verbatim>\<open>catch\<close>; it is embedded as a function from the
  caller (\<^verbatim>\<open>req.user\<close>), the route parameter, the body or query and the store to the response
  it sends and the store it leaves.

  An ObjectId is represented by the 24 lower-case hexadecimal digits its \<^verbatim>\<open>toString()\<close>
  gives, a date by its time value (milliseconds since the epoch). A string is the list of
  its code units, a \<open>char\<close> being a code unit below 256; strings with other code units
  are outside the model. A count is an integer: the schema's \<^verbatim>\<open>Number\<close> is a double, which
  holds every integer of magnitude up to \<open>2\<^sup>5\<^sup>3\<close> exactly; counts that are larger or not
  whole are outside the model.
\<close>

type_synonym oid = string
type_synonym time = int

text \<open>\<^verbatim>\<open>req.user\<close>, as the \<^verbatim>\<open>protect\<close> middleware leaves it.\<close>

record user =
  user_id :: oid
  role :: string
  user_officeId :: oid

text \<open>A stored document of \<^verbatim>\<open>EmployeeSchema\<close>.\<close>

record employee =
  emp_id :: oid
  name :: string
  officeId :: oid
  isRegisteredOnIGOT :: bool
  coursesEnrolled :: int
  coursesCompleted :: int
  reportDate :: time
  isFrozen :: bool
  createdBy :: oid
  createdAt :: time
  updatedAt :: time

text \<open>A stored document of \<^verbatim>\<open>OfficeSchema\<close>.\<close>

record office =
  office_id :: oid
  office_name :: string
  location :: string
  description :: "string option"
  office_createdBy :: oid
  office_createdAt :: time

record store =
  employees :: "employee list"
  offices :: "office list"

text \<open>
  \<^verbatim>\<open>req.body\<close> of the employee routes: one optional entry per path of the schema
  (\<open>None\<close> is \<^verbatim>\<open>undefined\<close>). Bodies that carry update operators or values of another
  JSON type are outside this type.
\<close>

record emp_body =
  b_name :: "string option"
  b_officeId :: "string option"
  b_isRegisteredOnIGOT :: "bool option"
  b_coursesEnrolled :: "int option"
  b_coursesCompleted :: "int option"
  b_reportDate :: "time option"
  b_isFrozen :: "bool option"
  b_createdBy :: "string option"
  b_createdAt :: "time option"
  b_updatedAt :: "time option"

text \<open>\<^verbatim>\<open>req.body\<close> of the office routes.\<close>

record office_body =
  ob_name :: "string option"
  ob_location :: "string option"
  ob_description :: "string option"
  ob_createdBy :: "string option"
  ob_createdAt :: "time option"

text \<open>The dashboard's \<^verbatim>\<open>data\<close> object.\<close>

record summary =
  totalEmployees :: nat
  registeredOnIGOT :: nat
  notRegisteredOnIGOT :: nat
  totalCoursesEnrolled :: int
  totalCoursesCompleted :: int
  completionRate :: "string option"

text \<open>
  The JSON envelope of a response. An employee of a list, a report or a single read comes
  with its populated office (\<open>None\<close> when the reference resolves to no document). The
  population of \<open>createdBy\<close>, which reads the name of a user from a collection the
  routes never write, is left out.
\<close>

datatype resp_body =
    Failure string
  | Employee_data "employee option"
  | Employee_message "employee option" string
  | Employee_populated employee "office option"
  | Employee_list nat "(employee \<times> office option) list"
  | Office_data "office option"
  | Office_list nat "office list"
  | Summary_data summary
  | Empty_data

type_synonym response = "nat \<times> resp_body"

text \<open>
  What a rejected Mongoose call carries, as far as the handlers look at it: a
  \<^verbatim>\<open>CastError\<close> with its \<^verbatim>\<open>kind\<close>, or a \<^verbatim>\<open>ValidationError\<close> with the messages of
  \<^verbatim>\<open>Object.values(err.errors)\<close>.
\<close>

datatype mongoose_error = CastError string | ValidationError "string list"

text \<open>
  What Mongoose and the JavaScript runtime decide and the sources of the service do not
  is a parameter of the model, one value of this record for each request:
  \<^item> \<open>cast_ObjectId\<close>: the ObjectId a string is cast to, \<open>None\<close> when the cast fails (which
    strings are ObjectIds differs between versions of the driver);
  \<^item> \<open>cast_message\<close>: the message of the error that document validation records for a value
    and a path when that cast fails;
  \<^item> \<open>string_trim\<close>: \<^verbatim>\<open>String.prototype.trim\<close>, which the \<^verbatim>\<open>trim: true\<close> setter applies;
  \<^item> \<open>object_values\<close>: the order in which \<^verbatim>\<open>Object.values(err.errors)\<close> lists the messages
    of the failing paths of a ValidationError. The constructor \<open>ValidationError\<close> holds
    them in schema order; the order of \<^verbatim>\<open>err.errors\<close> is the order in which the library
    happened to record them.
  Nothing is assumed of these four in the definitions.
\<close>

record library =
  cast_ObjectId :: "string \<Rightarrow> oid option"
  cast_message :: "string \<Rightarrow> string \<Rightarrow> string"
  string_trim :: "string \<Rightarrow> string"
  object_values :: "string list \<Rightarrow> string list"

section \<open>The Mongoose layer\<close>

text \<open>
  The models are Mongoose models; what the library does with a schema is written out
  here as the library documents it: an id that cannot be cast to an ObjectId is rejected
  with a CastError of kind \<^verbatim>\<open>ObjectId\<close>; \<^verbatim>\<open>trim\<close> is a setter, applied before validation;
  \<^verbatim>\<open>required\<close> rejects a missing value and the empty string; a path reports its first
  failing validator only; all failing paths are collected in one ValidationError.

  A collection is the list of its documents in store order. The store itself does not
  fail: a lost connection, which every handler would answer with 500, is not modelled.
\<close>

text \<open>\<^verbatim>\<open>Model.findById(id)\<close>, for a collection whose documents have the id \<open>key\<close>.\<close>

definition findById ::
  "library \<Rightarrow> ('a \<Rightarrow> oid) \<Rightarrow> 'a list \<Rightarrow> string \<Rightarrow> mongoose_error + 'a option" where
  "findById lib key docs v =
     (case cast_ObjectId lib v of
        None \<Rightarrow> Inl (CastError ''ObjectId'')
      | Some i \<Rightarrow> Inr (find (\<lambda>d. key d = i) docs))"

text \<open>The first document that matches is the one a single-document write touches.\<close>

fun update_first :: "('a \<Rightarrow> bool) \<Rightarrow> ('a \<Rightarrow> 'a) \<Rightarrow> 'a list \<Rightarrow> 'a list" where
  "update_first p f [] = []"
| "update_first p f (d # ds) = (if p d then f d # ds else d # update_first p f ds)"

fun delete_first :: "('a \<Rightarrow> bool) \<Rightarrow> 'a list \<Rightarrow> 'a list" where
  "delete_first p [] = []"
| "delete_first p (d # ds) = (if p d then ds else d # delete_first p ds)"

text \<open>\<^verbatim>\<open>Model.findByIdAndDelete(id)\<close>.\<close>

definition findByIdAndDelete ::
  "library \<Rightarrow> ('a \<Rightarrow> oid) \<Rightarrow> 'a list \<Rightarrow> string \<Rightarrow> mongoose_error + 'a list" where
  "findByIdAndDelete lib key docs v =
     (case cast_ObjectId lib v of
        None \<Rightarrow> Inl (CastError ''ObjectId'')
      | Some i \<Rightarrow> Inr (delete_first (\<lambda>d. key d = i) docs))"

subsection \<open>The validators of the employee schema\<close>

text \<open>
  The two custom validators read \<^verbatim>\<open>this\<close>. When a document is validated (on
  \<^verbatim>\<open>create\<close>), \<^verbatim>\<open>this\<close> is the document. When an update is validated
  (\<^verbatim>\<open>runValidators: true\<close>), \<^verbatim>\<open>this\<close> is not the document: it is the query (in older
  versions of the library the global object), on which neither property is defined;
  \<open>None\<close> stands for \<^verbatim>\<open>undefined\<close>.
\<close>

record this_ctx =
  this_isRegisteredOnIGOT :: "bool option"
  this_coursesEnrolled :: "int option"

definition this_document :: "bool \<Rightarrow> int \<Rightarrow> this_ctx" where
  "this_document reg enr =
     \<lparr>this_isRegisteredOnIGOT = Some reg, this_coursesEnrolled = Some enr\<rparr>"

definition this_query :: this_ctx where
  "this_query = \<lparr>this_isRegisteredOnIGOT = None, this_coursesEnrolled = None\<rparr>"

text \<open>\<^verbatim>\<open>return this.isRegisteredOnIGOT ? val >= 0 : val === 0;\<close>\<close>

definition coursesEnrolled_validator :: "this_ctx \<Rightarrow> int \<Rightarrow> bool" where
  "coursesEnrolled_validator this val =
     (if this_isRegisteredOnIGOT this = Some True then val \<ge> 0 else val = 0)"

text \<open>
  \<^verbatim>\<open>return val <= this.coursesEnrolled;\<close> A comparison with \<^verbatim>\<open>undefined\<close> is false.
\<close>

definition coursesCompleted_validator :: "this_ctx \<Rightarrow> int \<Rightarrow> bool" where
  "coursesCompleted_validator this val =
     (case this_coursesEnrolled this of None \<Rightarrow> False | Some enr \<Rightarrow> val \<le> enr)"

text \<open>The messages of one path: empty, or the message of its first failing validator.\<close>

definition validate_name :: "library \<Rightarrow> string \<Rightarrow> string \<Rightarrow> string option \<Rightarrow> string list" where
  "validate_name lib required_msg maxlength_msg v =
     (case v of
        None \<Rightarrow> [required_msg]
      | Some s \<Rightarrow>
          if string_trim lib s = [] then [required_msg]
          else if length (string_trim lib s) > 100 then [maxlength_msg]
          else [])"

definition validate_coursesEnrolled :: "this_ctx \<Rightarrow> int \<Rightarrow> string list" where
  "validate_coursesEnrolled this val =
     (if coursesEnrolled_validator this val then []
      else [''Courses enrolled should be 0 if not registered on iGOT platform''])"

definition validate_coursesCompleted :: "this_ctx \<Rightarrow> int \<Rightarrow> string list" where
  "validate_coursesCompleted this val =
     (if coursesCompleted_validator this val then []
      else [''Courses completed cannot be more than courses enrolled''])"


text \<open>\<^verbatim>\<open>messages.join(', ')\<close>\<close>

fun join :: "string \<Rightarrow> string list \<Rightarrow> string" where
  "join sep [] = []"
| "join sep [m] = m"
| "join sep (m # ms) = m @ sep @ join sep ms"

subsection \<open>The Employee model\<close>

text \<open>
  The hook of the schema: \<^verbatim>\<open>EmployeeSchema.pre('save', ...)\<close> sets \<open>updatedAt\<close> to
  \<^verbatim>\<open>Date.now()\<close>. It runs when a document is saved, which of the calls the routes make
  only \<^verbatim>\<open>create\<close> does.
\<close>

definition pre_save :: "time \<Rightarrow> employee \<Rightarrow> employee" where
  "pre_save now d = d\<lparr>updatedAt := now\<rparr>"

text \<open>
  \<^verbatim>\<open>Employee.create({name, officeId, isRegisteredOnIGOT, coursesEnrolled, coursesCompleted,
  reportDate, createdBy})\<close>: defaults fill what is \<^verbatim>\<open>undefined\<close>, the document is validated
  with \<^verbatim>\<open>this\<close> the document, the hook runs, and the document is inserted under the id
  the store assigns (\<open>new_id\<close>). \<open>now\<close> is \<^verbatim>\<open>Date.now()\<close>, one instant for the whole
  request. \<open>createdBy\<close> is \<^verbatim>\<open>req.user.id\<close>, taken to be an ObjectId.
\<close>

definition Employee_validate ::
  "library \<Rightarrow> string option \<Rightarrow> string option \<Rightarrow> bool \<Rightarrow> int \<Rightarrow> int \<Rightarrow> string list" where
  "Employee_validate lib nm off reg enr cmp =
     validate_name lib ''Please add employee name'' ''Name cannot be more than 100 characters'' nm
     @ (case off of
          None \<Rightarrow> [''Please add office'']
        | Some v \<Rightarrow>
            (case cast_ObjectId lib v of
               None \<Rightarrow> [cast_message lib v ''officeId'']
             | Some _ \<Rightarrow> []))
     @ validate_coursesEnrolled (this_document reg enr) enr
     @ validate_coursesCompleted (this_document reg enr) cmp"

definition Employee_create ::
  "library \<Rightarrow> oid \<Rightarrow> time \<Rightarrow> string option \<Rightarrow> string option \<Rightarrow> bool option \<Rightarrow>
   int option \<Rightarrow>
   int option \<Rightarrow> time \<Rightarrow> oid \<Rightarrow> employee list \<Rightarrow> mongoose_error + employee \<times> employee list" where
  "Employee_create lib new_id now nm off reg enr cmp rep by docs =
     (let reg' = (case reg of None \<Rightarrow> False | Some b \<Rightarrow> b);
          enr' = (case enr of None \<Rightarrow> 0 | Some n \<Rightarrow> n);
          cmp' = (case cmp of None \<Rightarrow> 0 | Some n \<Rightarrow> n);
          errors = Employee_validate lib nm off reg' enr' cmp'
      in case (errors, nm, off) of
           ([], Some n, Some v) \<Rightarrow>
             (case cast_ObjectId lib v of
                None \<Rightarrow> Inl (ValidationError errors)
              | Some o_id \<Rightarrow>
                  (let doc = pre_save now
                               \<lparr>emp_id = new_id, name = string_trim lib n, officeId = o_id,
                                isRegisteredOnIGOT = reg', coursesEnrolled = enr',
                                coursesCompleted = cmp', reportDate = rep, isFrozen = False,
                                createdBy = by, createdAt = now, updatedAt = now\<rparr>
                   in Inr (doc, docs @ [doc])))
         | _ \<Rightarrow> Inl (ValidationError errors))"

text \<open>
  \<^verbatim>\<open>Employee.findByIdAndUpdate(id, update, {new: true, runValidators})\<close>. The update is a
  plain object, so it is a \<^verbatim>\<open>$set\<close> of the paths it names. Update validators run on the
  paths of the update only, each on the new value alone, with \<^verbatim>\<open>this\<close> the query. No
  \<^verbatim>\<open>save\<close> middleware runs, and the schema declares no \<^verbatim>\<open>timestamps\<close> option, so
  \<open>updatedAt\<close> changes only when the update names it. The result is the document after the
  update, or \<^verbatim>\<open>null\<close> when no document has the id.
\<close>

definition Employee_update_validators :: "library \<Rightarrow> emp_body \<Rightarrow> string list" where
  "Employee_update_validators lib upd =
     (case b_name upd of
        None \<Rightarrow> []
      | Some s \<Rightarrow>
          validate_name lib ''Please add employee name''
            ''Name cannot be more than 100 characters'' (Some s))
     @ (case b_coursesEnrolled upd of
          None \<Rightarrow> []
        | Some n \<Rightarrow> validate_coursesEnrolled this_query n)
     @ (case b_coursesCompleted upd of
          None \<Rightarrow> []
        | Some n \<Rightarrow> validate_coursesCompleted this_query n)"

definition set_path :: "'b option \<Rightarrow> 'b \<Rightarrow> 'b" where
  "set_path v old = (case v of None \<Rightarrow> old | Some new \<Rightarrow> new)"

definition Employee_set :: "library \<Rightarrow> emp_body \<Rightarrow> employee \<Rightarrow> employee" where
  "Employee_set lib upd d =
     \<lparr>emp_id = emp_id d,
      name = set_path (map_option (string_trim lib) (b_name upd)) (name d),
      officeId = set_path (Option.bind (b_officeId upd) (cast_ObjectId lib)) (officeId d),
      isRegisteredOnIGOT = set_path (b_isRegisteredOnIGOT upd) (isRegisteredOnIGOT d),
      coursesEnrolled = set_path (b_coursesEnrolled upd) (coursesEnrolled d),
      coursesCompleted = set_path (b_coursesCompleted upd) (coursesCompleted d),
      reportDate = set_path (b_reportDate upd) (reportDate d),
      isFrozen = set_path (b_isFrozen upd) (isFrozen d),
      createdBy = set_path (Option.bind (b_createdBy upd) (cast_ObjectId lib)) (createdBy d),
      createdAt = set_path (b_createdAt upd) (createdAt d),
      updatedAt = set_path (b_updatedAt upd) (updatedAt d)\<rparr>"

definition uncastable :: "library \<Rightarrow> string option \<Rightarrow> bool" where
  "uncastable lib v = (case v of None \<Rightarrow> False | Some x \<Rightarrow> cast_ObjectId lib x = None)"

definition Employee_findByIdAndUpdate ::
  "library \<Rightarrow> employee list \<Rightarrow> string \<Rightarrow> emp_body \<Rightarrow> bool \<Rightarrow>
   mongoose_error + employee option \<times> employee list" where
  "Employee_findByIdAndUpdate lib docs v upd runValidators =
     (case cast_ObjectId lib v of
        None \<Rightarrow> Inl (CastError ''ObjectId'')
      | Some i \<Rightarrow>
          if uncastable lib (b_officeId upd) \<or> uncastable lib (b_createdBy upd)
          then Inl (CastError ''ObjectId'')
          else if runValidators \<and> Employee_update_validators lib upd \<noteq> []
          then Inl (ValidationError (Employee_update_validators lib upd))
          else (let docs' = update_first (\<lambda>d. emp_id d = i) (Employee_set lib upd) docs
                in Inr (find (\<lambda>d. emp_id d = i) docs', docs')))"

text \<open>
  \<^verbatim>\<open>Employee.find(query)\<close>, for the queries the routes build: an optional range on
  \<open>reportDate\<close> (\<^verbatim>\<open>$gte\<close>, \<^verbatim>\<open>$lte\<close>) and an optional \<open>officeId\<close>. A bound that is an
  invalid date (\<open>None\<close>) cannot be cast and the call is rejected.
\<close>

record query =
  q_reportDate :: "(time option \<times> time option) option"
  q_officeId :: "oid option"

definition matches :: "time option \<Rightarrow> time option \<Rightarrow> oid option \<Rightarrow> employee \<Rightarrow> bool" where
  "matches gte lte off d =
     ((case gte of None \<Rightarrow> True | Some a \<Rightarrow> a \<le> reportDate d)
      \<and> (case lte of None \<Rightarrow> True | Some b \<Rightarrow> reportDate d \<le> b)
      \<and> (case off of None \<Rightarrow> True | Some i \<Rightarrow> officeId d = i))"

definition Employee_find :: "query \<Rightarrow> employee list \<Rightarrow> mongoose_error + employee list" where
  "Employee_find q docs =
     (case q_reportDate q of
        None \<Rightarrow> Inr (filter (matches None None (q_officeId q)) docs)
      | Some (Some a, Some b) \<Rightarrow> Inr (filter (matches (Some a) (Some b) (q_officeId q)) docs)
      | Some _ \<Rightarrow> Inl (CastError ''date''))"

text \<open>\<^verbatim>\<open>.populate('officeId', 'name location')\<close>: the office the reference resolves to.\<close>

definition populate_officeId :: "office list \<Rightarrow> employee \<Rightarrow> employee \<times> office option" where
  "populate_officeId os d = (d, find (\<lambda>off. office_id off = officeId d) os)"


section \<open>The employee routes\<close>

text \<open>
  The three shapes of \<^verbatim>\<open>catch (err)\<close> the handlers use: one that answers 404 to a
  CastError of kind \<^verbatim>\<open>ObjectId\<close>, one that answers 400 to a ValidationError, with the
  messages of \<^verbatim>\<open>Object.values(err.errors)\<close> joined by \<^verbatim>\<open>', '\<close>, and one that answers 500
  to everything. The first two fall through to 500.
\<close>

definition server_error :: response where
  "server_error = (500, Failure ''Server Error'')"

definition catch_ObjectId :: "string \<Rightarrow> mongoose_error \<Rightarrow> response" where
  "catch_ObjectId not_found err =
     (case err of
        CastError kind \<Rightarrow> if kind = ''ObjectId'' then (404, Failure not_found) else server_error
      | ValidationError _ \<Rightarrow> server_error)"

definition catch_ValidationError :: "library \<Rightarrow> mongoose_error \<Rightarrow> response" where
  "catch_ValidationError lib err =
     (case err of
        ValidationError errors \<Rightarrow> (400, Failure (join '', '' (object_values lib errors)))
      | CastError _ \<Rightarrow> server_error)"

definition catch_all :: "mongoose_error \<Rightarrow> response" where
  "catch_all err = server_error"

text \<open>The records a caller sees: \<^verbatim>\<open>req.user.role !== 'admin'\<close> restricts to the own office.\<close>

definition visible :: "user \<Rightarrow> employee list \<Rightarrow> employee list" where
  "visible u docs =
     (if role u \<noteq> ''admin'' then filter (\<lambda>d. officeId d = user_officeId u) docs else docs)"

text \<open>\<^verbatim>\<open>GET /api/employees\<close>\<close>

definition get_employees :: "user \<Rightarrow> store \<Rightarrow> response" where
  "get_employees u st =
     (let found = visible u (employees st)
      in (200, Employee_list (length found) (map (populate_officeId (offices st)) found)))"

text \<open>\<^verbatim>\<open>GET /api/employees/:id\<close>\<close>

definition get_employee :: "library \<Rightarrow> user \<Rightarrow> string \<Rightarrow> store \<Rightarrow> response" where
  "get_employee lib u param st =
     (case findById lib emp_id (employees st) param of
        Inl err \<Rightarrow> catch_ObjectId ''Employee not found'' err
      | Inr None \<Rightarrow> (404, Failure ''Employee not found'')
      | Inr (Some d) \<Rightarrow>
          (case populate_officeId (offices st) d of
             (employee, populated) \<Rightarrow>
               if role u \<noteq> ''admin''
               then (case populated of
                       None \<Rightarrow> server_error
                     | Some off \<Rightarrow>
                         if user_officeId u \<noteq> office_id off
                         then (403, Failure ''Not authorized to access this employee'')
                         else (200, Employee_populated employee populated))
               else (200, Employee_populated employee populated)))"

text \<open>
  \<^verbatim>\<open>POST /api/employees\<close>. A value is truthy when it is \<^verbatim>\<open>true\<close>, a non-zero number or
  a non-empty string.
\<close>

definition post_employee ::
  "library \<Rightarrow> oid \<Rightarrow> time \<Rightarrow> user \<Rightarrow> emp_body \<Rightarrow> store \<Rightarrow> response \<times> store" where
  "post_employee lib new_id now u body st =
     (if role u \<noteq> ''admin'' \<and> Some (user_officeId u) \<noteq> b_officeId body
      then ((403, Failure ''Not authorized to add employees to this office''), st)
      else
        (case Employee_create lib new_id now
                (b_name body)
                (b_officeId body)
                (b_isRegisteredOnIGOT body)
                (if b_isRegisteredOnIGOT body = Some True then b_coursesEnrolled body else Some 0)
                (if b_isRegisteredOnIGOT body = Some True then b_coursesCompleted body else Some 0)
                (case b_reportDate body of None \<Rightarrow> now | Some t \<Rightarrow> if t = 0 then now else t)
                (user_id u)
                (employees st) of
           Inl err \<Rightarrow> (catch_ValidationError lib err, st)
         | Inr (employee, docs) \<Rightarrow>
             ((201, Employee_data (Some employee)), st\<lparr>employees := docs\<rparr>)))"

text \<open>\<^verbatim>\<open>PUT /api/employees/:id\<close>\<close>

definition put_employee ::
  "library \<Rightarrow> user \<Rightarrow> string \<Rightarrow> emp_body \<Rightarrow> store \<Rightarrow> response \<times> store" where
  "put_employee lib u param body st =
     (case findById lib emp_id (employees st) param of
        Inl err \<Rightarrow> (catch_ValidationError lib err, st)
      | Inr None \<Rightarrow> ((404, Failure ''Employee not found''), st)
      | Inr (Some employee) \<Rightarrow>
          if isFrozen employee
          then ((403, Failure ''This record is frozen and cannot be modified''), st)
          else if role u \<noteq> ''admin'' \<and> user_officeId u \<noteq> officeId employee
          then ((403, Failure ''Not authorized to update this employee''), st)
          else
            (case Employee_findByIdAndUpdate lib (employees st) param body True of
               Inl err \<Rightarrow> (catch_ValidationError lib err, st)
             | Inr (updated, docs) \<Rightarrow>
                 ((200, Employee_data updated), st\<lparr>employees := docs\<rparr>)))"

text \<open>\<^verbatim>\<open>DELETE /api/employees/:id\<close>\<close>

definition delete_employee :: "library \<Rightarrow> user \<Rightarrow> string \<Rightarrow> store \<Rightarrow> response \<times> store" where
  "delete_employee lib u param st =
     (case findById lib emp_id (employees st) param of
        Inl err \<Rightarrow> (catch_all err, st)
      | Inr None \<Rightarrow> ((404, Failure ''Employee not found''), st)
      | Inr (Some employee) \<Rightarrow>
          if isFrozen employee
          then ((403, Failure ''This record is frozen and cannot be deleted''), st)
          else if role u \<noteq> ''admin'' \<and> user_officeId u \<noteq> officeId employee
          then ((403, Failure ''Not authorized to delete this employee''), st)
          else
            (case findByIdAndDelete lib emp_id (employees st) param of
               Inl err \<Rightarrow> (catch_all err, st)
             | Inr docs \<Rightarrow> ((200, Empty_data), st\<lparr>employees := docs\<rparr>)))"

text \<open>
  \<^verbatim>\<open>PUT /api/employees/freeze/:id\<close> and \<^verbatim>\<open>PUT /api/employees/unfreeze/:id\<close>: the handler
  behind the \<^verbatim>\<open>protect\<close> and \<^verbatim>\<open>admin\<close> middleware. The update is the literal
  \<^verbatim>\<open>{ isFrozen: true }\<close> or \<^verbatim>\<open>{ isFrozen: false }\<close>, without \<^verbatim>\<open>runValidators\<close>.
\<close>

definition only_isFrozen :: "bool \<Rightarrow> emp_body" where
  "only_isFrozen b =
     \<lparr>b_name = None, b_officeId = None, b_isRegisteredOnIGOT = None, b_coursesEnrolled = None,
      b_coursesCompleted = None, b_reportDate = None, b_isFrozen = Some b, b_createdBy = None,
      b_createdAt = None, b_updatedAt = None\<rparr>"

definition set_frozen ::
  "library \<Rightarrow> bool \<Rightarrow> string \<Rightarrow> string \<Rightarrow> store \<Rightarrow> response \<times> store" where
  "set_frozen lib b message param st =
     (case findById lib emp_id (employees st) param of
        Inl err \<Rightarrow> (catch_all err, st)
      | Inr None \<Rightarrow> ((404, Failure ''Employee not found''), st)
      | Inr (Some employee) \<Rightarrow>
          (case Employee_findByIdAndUpdate lib (employees st) param (only_isFrozen b) False of
             Inl err \<Rightarrow> (catch_all err, st)
           | Inr (updated, docs) \<Rightarrow>
               ((200, Employee_message updated message), st\<lparr>employees := docs\<rparr>)))"

definition put_freeze :: "library \<Rightarrow> string \<Rightarrow> store \<Rightarrow> response \<times> store" where
  "put_freeze lib param st = set_frozen lib True ''Employee record has been frozen'' param st"

definition put_unfreeze :: "library \<Rightarrow> string \<Rightarrow> store \<Rightarrow> response \<times> store" where
  "put_unfreeze lib param st = set_frozen lib False ''Employee record has been unfrozen'' param st"

subsection \<open>The dashboard\<close>

text \<open>
  \<^verbatim>\<open>Number.prototype.toFixed(2)\<close>, as ECMAScript defines it on the mathematical value of
  the number: the sign first; then the integer \<open>n\<close> for which \<open>n / 100\<close> is closest to
  \<open>x\<close>, the larger one of two; its decimal digits, padded to three, with the point before
  the last two. From \<open>10\<^sup>2\<^sup>1\<close> on the result is the exponent notation of \<^verbatim>\<open>ToString\<close>,
  which is left out (\<open>None\<close>).

  The numbers of the service are IEEE doubles, and a double is a rational number. The
  counts and their sums are integers. A quotient or a product is the exact result rounded
  to a double; the rounding is the parameter \<open>fl\<close> of the dashboard, about which nothing
  is assumed.
\<close>

fun digits :: "nat \<Rightarrow> string" where
  "digits n =
     (if n < 10 then [''0123456789'' ! n]
      else digits (n div 10) @ [''0123456789'' ! (n mod 10)])"

declare digits.simps [simp del]

definition pad3 :: "string \<Rightarrow> string" where
  "pad3 m = replicate (3 - length m) CHR ''0'' @ m"

definition fixed2 :: "nat \<Rightarrow> string" where
  "fixed2 n =
     (let m = pad3 (digits n)
      in take (length m - 2) m @ ''.'' @ drop (length m - 2) m)"

definition toFixed2 :: "rat \<Rightarrow> string option" where
  "toFixed2 x =
     (let s = (if x < 0 then ''-'' else []);
          y = (if x < 0 then - x else x)
      in if y \<ge> 10 ^ 21 then None
         else Some (s @ fixed2 (nat \<lfloor>y * 100 + 1 / 2\<rfloor>)))"

text \<open>\<^verbatim>\<open>GET /api/employees/dashboard\<close>\<close>

definition dashboard_summary :: "(rat \<Rightarrow> rat) \<Rightarrow> employee list \<Rightarrow> summary" where
  "dashboard_summary fl found =
     (let total = length found;
          registered = length (filter isRegisteredOnIGOT found);
          notRegistered = total - registered;
          enrolled = foldl (\<lambda>sum emp. sum + coursesEnrolled emp) 0 found;
          completed = foldl (\<lambda>sum emp. sum + coursesCompleted emp) 0 found;
          rate = (if enrolled > 0 then fl (fl (of_int completed / of_int enrolled) * 100) else 0)
      in \<lparr>totalEmployees = total,
          registeredOnIGOT = registered,
          notRegisteredOnIGOT = notRegistered,
          totalCoursesEnrolled = enrolled,
          totalCoursesCompleted = completed,
          completionRate = toFixed2 rate\<rparr>)"


subsection \<open>The report\<close>

text \<open>
  \<^verbatim>\<open>GET /api/employees/report\<close>. \<open>startDate\<close> and \<open>endDate\<close> are the two entries of
  \<^verbatim>\<open>req.query\<close>, strings when present; \<open>newDate\<close> is JavaScript's \<^verbatim>\<open>new Date(string)\<close>,
  \<open>None\<close> for an invalid date. The empty string is falsy.
\<close>

definition report_query ::
  "(string \<Rightarrow> time option) \<Rightarrow> user \<Rightarrow> string option \<Rightarrow> string option \<Rightarrow> query" where
  "report_query newDate u startDate endDate =
     \<lparr>q_reportDate =
        (case (startDate, endDate) of
           (Some s, Some e) \<Rightarrow> if s \<noteq> [] \<and> e \<noteq> [] then Some (newDate s, newDate e) else None
         | _ \<Rightarrow> None),
      q_officeId = (if role u \<noteq> ''admin'' then Some (user_officeId u) else None)\<rparr>"

definition get_report ::
  "(string \<Rightarrow> time option) \<Rightarrow> user \<Rightarrow> string option \<Rightarrow> string option \<Rightarrow> store \<Rightarrow> response" where
  "get_report newDate u startDate endDate st =
     (case Employee_find (report_query newDate u startDate endDate) (employees st) of
        Inl err \<Rightarrow> catch_all err
      | Inr found \<Rightarrow>
          (200, Employee_list (length found) (map (populate_officeId (offices st)) found)))"

section \<open>The office routes\<close>

definition validate_location :: "library \<Rightarrow> string option \<Rightarrow> string list" where
  "validate_location lib v =
     (case v of
        None \<Rightarrow> [''Please add a location'']
      | Some s \<Rightarrow> if string_trim lib s = [] then [''Please add a location''] else [])"



definition Office_update_validators :: "library \<Rightarrow> office_body \<Rightarrow> string list" where
  "Office_update_validators lib upd =
     (case ob_name upd of
        None \<Rightarrow> []
      | Some s \<Rightarrow>
          validate_name lib ''Please add an office name''
            ''Name cannot be more than 100 characters'' (Some s))
     @ (case ob_location upd of None \<Rightarrow> [] | Some s \<Rightarrow> validate_location lib (Some s))"

definition Office_set :: "library \<Rightarrow> office_body \<Rightarrow> office \<Rightarrow> office" where
  "Office_set lib upd d =
     \<lparr>office_id = office_id d,
      office_name = set_path (map_option (string_trim lib) (ob_name upd)) (office_name d),
      location = set_path (map_option (string_trim lib) (ob_location upd)) (location d),
      description =
        set_path (map_option (Some \<circ> string_trim lib) (ob_description upd)) (description d),
      office_createdBy =
        set_path (Option.bind (ob_createdBy upd) (cast_ObjectId lib)) (office_createdBy d),
      office_createdAt = set_path (ob_createdAt upd) (office_createdAt d)\<rparr>"

definition Office_findByIdAndUpdate ::
  "library \<Rightarrow> office list \<Rightarrow> string \<Rightarrow> office_body \<Rightarrow> bool \<Rightarrow>
   mongoose_error + office option \<times> office list" where
  "Office_findByIdAndUpdate lib docs v upd runValidators =
     (case cast_ObjectId lib v of
        None \<Rightarrow> Inl (CastError ''ObjectId'')
      | Some i \<Rightarrow>
          if uncastable lib (ob_createdBy upd)
          then Inl (CastError ''ObjectId'')
          else if runValidators \<and> Office_update_validators lib upd \<noteq> []
          then Inl (ValidationError (Office_update_validators lib upd))
          else (let docs' = update_first (\<lambda>d. office_id d = i) (Office_set lib upd) docs
                in Inr (find (\<lambda>d. office_id d = i) docs', docs')))"

text \<open>\<^verbatim>\<open>GET /api/offices\<close>\<close>

definition get_offices :: "user \<Rightarrow> store \<Rightarrow> response" where
  "get_offices u st =
     (let found = (if role u \<noteq> ''admin''
                   then filter (\<lambda>d. office_id d = user_officeId u) (offices st)
                   else offices st)
      in (200, Office_list (length found) found))"

text \<open>\<^verbatim>\<open>GET /api/offices/:id\<close>\<close>

definition get_office :: "library \<Rightarrow> user \<Rightarrow> string \<Rightarrow> store \<Rightarrow> response" where
  "get_office lib u param st =
     (case findById lib office_id (offices st) param of
        Inl err \<Rightarrow> catch_ObjectId ''Office not found'' err
      | Inr None \<Rightarrow> (404, Failure ''Office not found'')
      | Inr (Some d) \<Rightarrow>
          if role u \<noteq> ''admin'' \<and> user_officeId u \<noteq> office_id d
          then (403, Failure ''Not authorized to access this office'')
          else (200, Office_data (Some d)))"


text \<open>\<^verbatim>\<open>PUT /api/offices/:id\<close>, behind \<^verbatim>\<open>protect\<close> and \<^verbatim>\<open>admin\<close>.\<close>

definition put_office :: "library \<Rightarrow> string \<Rightarrow> office_body \<Rightarrow> store \<Rightarrow> response \<times> store" where
  "put_office lib param body st =
     (case findById lib office_id (offices st) param of
        Inl err \<Rightarrow> (catch_ValidationError lib err, st)
      | Inr None \<Rightarrow> ((404, Failure ''Office not found''), st)
      | Inr (Some d) \<Rightarrow>
          (case Office_findByIdAndUpdate lib (offices st) param body True of
             Inl err \<Rightarrow> (catch_ValidationError lib err, st)
           | Inr (updated, docs) \<Rightarrow> ((200, Office_data updated), st\<lparr>offices := docs\<rparr>)))"

text \<open>\<^verbatim>\<open>DELETE /api/offices/:id\<close>, behind \<^verbatim>\<open>protect\<close> and \<^verbatim>\<open>admin\<close>.\<close>

definition delete_office :: "library \<Rightarrow> string \<Rightarrow> store \<Rightarrow> response \<times> store" where
  "delete_office lib param st =
     (case findById lib office_id (offices st) param of
        Inl err \<Rightarrow> (catch_all err, st)
      | Inr None \<Rightarrow> ((404, Failure ''Office not found''), st)
      | Inr (Some d) \<Rightarrow>
          (case findByIdAndDelete lib office_id (offices st) param of
             Inl err \<Rightarrow> (catch_all err, st)
           | Inr docs \<Rightarrow> ((200, Empty_data), st\<lparr>offices := docs\<rparr>)))"

section \<open>An instance of the library\<close>

text \<open>
  The library of the examples: the ObjectIds are the strings of 24 hexadecimal digits,
  \<^verbatim>\<open>trim\<close> strips the white space and line terminators of ECMAScript that are code units
  below 256, the message of a failed cast has the form Mongoose gives it, and the messages
  of a ValidationError are listed in schema order. A second instance lists them in the
  reverse order. The examples of the properties are evaluated with these two; the
  properties themselves are stated for every library.
\<close>

definition is_hex :: "char \<Rightarrow> bool" where
  "is_hex c = (c \<in> set ''0123456789abcdefABCDEF'')"

definition lower_hex :: "char \<Rightarrow> char" where
  "lower_hex c = (case map_of (zip ''ABCDEF'' ''abcdef'') c of Some d \<Rightarrow> d | None \<Rightarrow> c)"

definition castObjectId :: "string \<Rightarrow> oid option" where
  "castObjectId v =
     (if length v = 24 \<and> list_all is_hex v then Some (map lower_hex v) else None)"

definition is_space :: "char \<Rightarrow> bool" where
  "is_space c =
     (c \<in> set [CHR 0x09, CHR 0x0A, CHR 0x0B, CHR 0x0C, CHR 0x0D, CHR 0x20, CHR 0xA0])"

definition trim :: "string \<Rightarrow> string" where
  "trim s = rev (dropWhile is_space (rev (dropWhile is_space s)))"

definition cast_failed :: "string \<Rightarrow> string \<Rightarrow> string" where
  \<open>cast_failed v path =
     ''Cast to ObjectId failed for value "'' @ v @ ''" (type string) at path "'' @ path
     @ ''" because of "BSONError"''\<close>

definition example_library :: library where
  "example_library =
     \<lparr>cast_ObjectId = castObjectId, cast_message = cast_failed, string_trim = trim,
      object_values = (\<lambda>errors. errors)\<rparr>"

definition reversing_library :: library where
  "reversing_library = example_library\<lparr>object_values := rev\<rparr>"

section \<open>Predicates of the statements\<close>



section \<open>Example data\<close>

text \<open>
  Two offices, an administrator, a member of the first office, and three employees: two of
  the first office, reported on the first and on the last instant of January 2024
  (\<^verbatim>\<open>new Date('2024-01-01')\<close> and \<^verbatim>\<open>new Date('2024-01-31')\<close>), and a frozen one of the
  second office, reported one millisecond later.
\<close>

definition office_A :: oid where
  "office_A = ''aaaaaaaaaaaaaaaaaaaaaaaa''"

definition office_B :: oid where
  "office_B = ''bbbbbbbbbbbbbbbbbbbbbbbb''"

definition example_admin :: user where
  "example_admin =
     \<lparr>user_id = ''cccccccccccccccccccccccc'', role = ''admin'', user_officeId = office_A\<rparr>"

definition example_member :: user where
  "example_member =
     \<lparr>user_id = ''dddddddddddddddddddddddd'', role = ''user'', user_officeId = office_A\<rparr>"

definition jo :: employee where
  "jo = \<lparr>emp_id = ''000000000000000000000001'', name = ''Jo'', officeId = office_A,
          isRegisteredOnIGOT = True, coursesEnrolled = 5, coursesCompleted = 3,
          reportDate = 1704067200000, isFrozen = False,
          createdBy = ''cccccccccccccccccccccccc'', createdAt = 1704067200000,
          updatedAt = 1704067200000\<rparr>"

definition al :: employee where
  "al = \<lparr>emp_id = ''000000000000000000000002'', name = ''Al'', officeId = office_A,
          isRegisteredOnIGOT = False, coursesEnrolled = 0, coursesCompleted = 0,
          reportDate = 1706659200000, isFrozen = False,
          createdBy = ''dddddddddddddddddddddddd'', createdAt = 1706659200000,
          updatedAt = 1706659200000\<rparr>"

definition flo :: employee where
  "flo = \<lparr>emp_id = ''000000000000000000000003'', name = ''Flo'', officeId = office_B,
           isRegisteredOnIGOT = True, coursesEnrolled = 4, coursesCompleted = 4,
           reportDate = 1706659200001, isFrozen = True,
           createdBy = ''cccccccccccccccccccccccc'', createdAt = 1706659200001,
           updatedAt = 1706659200001\<rparr>"

definition example_store :: store where
  "example_store = \<lparr>employees = [jo, al, flo], offices = []\<rparr>"

definition empty_body :: emp_body where
  "empty_body =
     \<lparr>b_name = None, b_officeId = None, b_isRegisteredOnIGOT = None, b_coursesEnrolled = None,
      b_coursesCompleted = None, b_reportDate = None, b_isFrozen = None, b_createdBy = None,
      b_createdAt = None, b_updatedAt = None\<rparr>"

definition example_newDate :: "string \<Rightarrow> time option" where
  "example_newDate s =
     (if s = ''2024-01-01'' then Some 1704067200000
      else if s = ''2024-01-31'' then Some 1706659200000
      else None)"

definition example_office_body :: office_body where
  "example_office_body =
     \<lparr>ob_name = None, ob_location = Some ''  '', ob_description = None, ob_createdBy = None,
      ob_createdAt = None\<rparr>"


definition create_jo :: emp_body where
  "create_jo =
     empty_body\<lparr>b_name := Some ''Jo'', b_officeId := Some office_A,
                 b_isRegisteredOnIGOT := Some False, b_coursesEnrolled := Some 5\<rparr>"

definition created_jo :: employee where
  "created_jo =
     \<lparr>emp_id = ''000000000000000000000004'', name = ''Jo'', officeId = office_A,
      isRegisteredOnIGOT = False, coursesEnrolled = 0, coursesCompleted = 0,
      reportDate = 1706745600000, isFrozen = False,
      createdBy = ''dddddddddddddddddddddddd'', createdAt = 1706745600000,
      updatedAt = 1706745600000\<rparr>"





section \<open>Properties\<close>

subsection \<open>Auxiliary facts\<close>

lemmas example_defs = example_store_def jo_def al_def flo_def office_A_def office_B_def
  example_admin_def example_member_def empty_body_def

lemma example_library_simps [simp]:
  "cast_ObjectId example_library = castObjectId"
  "cast_message example_library = cast_failed"
  "string_trim example_library = trim"
  "object_values example_library = (\<lambda>errors. errors)"
  "cast_ObjectId reversing_library = castObjectId"
  "cast_message reversing_library = cast_failed"
  "string_trim reversing_library = trim"
  "object_values reversing_library = rev"
  by (simp_all add: example_library_def reversing_library_def)

lemma castObjectId_jo:
  "castObjectId ''000000000000000000000001'' = Some ''000000000000000000000001''"
  by (simp add: castObjectId_def is_hex_def lower_hex_def)

lemma castObjectId_flo:
  "castObjectId ''000000000000000000000003'' = Some ''000000000000000000000003''"
  by (simp add: castObjectId_def is_hex_def lower_hex_def)

lemma castObjectId_office_A:
  "castObjectId ''aaaaaaaaaaaaaaaaaaaaaaaa'' = Some ''aaaaaaaaaaaaaaaaaaaaaaaa''"
  by (simp add: castObjectId_def is_hex_def lower_hex_def)

lemma castObjectId_abc: "castObjectId ''abc'' = None"
  by (simp add: castObjectId_def)

subsection \<open>Frozen records\<close>

lemma find_existing:
  assumes "e \<in> set docs" and "distinct (map key docs)"
  shows "find (\<lambda>d. key d = key e) docs = Some e"
  using assms by (induction docs) (auto simp: image_iff)

lemma findById_existing:
  assumes "e \<in> set docs" and "distinct (map key docs)"
    and "cast_ObjectId lib param = Some (key e)"
  shows "findById lib key docs param = Inr (Some e)"
  using assms by (simp add: findById_def find_existing)

lemma example_store_ids: "distinct (map emp_id (employees example_store))"
  by (simp add: example_defs)

text \<open>
  C2. For an employee that is stored (under an id of its own) and is frozen, update and
  delete both answer 403 and leave the store as it was, whoever the caller is: the
  statement holds for every caller \<open>u\<close>, an administrator included, for every body, and
  for every spelling \<open>param\<close> of the record's id.
\<close>

theorem frozen_record_rejects_update_and_delete:
  assumes "e \<in> set (employees st)" and "distinct (map emp_id (employees st))"
    and "cast_ObjectId lib param = Some (emp_id e)" and "isFrozen e"
  shows "fst (fst (put_employee lib u param body st)) = 403
       \<and> snd (put_employee lib u param body st) = st
       \<and> fst (fst (delete_employee lib u param st)) = 403
       \<and> snd (delete_employee lib u param st) = st"
  using findById_existing [OF assms(1-3)] assms(4)
  by (simp add: put_employee_def delete_employee_def)

theorem frozen_record_rejects_update_and_delete_witness:
  "flo \<in> set (employees example_store)
   \<and> distinct (map emp_id (employees example_store))
   \<and> cast_ObjectId example_library ''000000000000000000000003'' = Some (emp_id flo)
   \<and> isFrozen flo
   \<and> role example_admin = ''admin''
   \<and> fst (fst (put_employee example_library example_admin ''000000000000000000000003''
                  empty_body example_store)) = 403
   \<and> snd (put_employee example_library example_admin ''000000000000000000000003''
             empty_body example_store) = example_store
   \<and> fst (fst (delete_employee example_library example_admin ''000000000000000000000003''
                  example_store)) = 403
   \<and> snd (delete_employee example_library example_admin ''000000000000000000000003''
             example_store) = example_store"
proof -
  have stored: "flo \<in> set (employees example_store)" by (simp add: example_store_def)
  have cast: "cast_ObjectId example_library ''000000000000000000000003'' = Some (emp_id flo)"
    by (simp add: castObjectId_flo flo_def)
  have frozen: "isFrozen flo" by (simp add: flo_def)
  have admin: "role example_admin = ''admin''" by (simp add: example_admin_def)
  show ?thesis
    using frozen_record_rejects_update_and_delete
            [OF stored example_store_ids cast frozen, of example_admin empty_body]
      stored example_store_ids cast frozen admin
    by simp
qed

text \<open>
  C10. The freeze check comes before the ownership check: for a stored frozen record
  every caller gets the message of the freeze check, on update and on delete, and never
  the message of the ownership check. The statement holds for every caller \<open>u\<close>: an
  administrator, a member of the record's office, and a caller who is no administrator
  and whose office is not the record's, to whom the ownership check would have answered.
\<close>

theorem freeze_check_precedes_ownership_check:
  assumes "e \<in> set (employees st)" and "distinct (map emp_id (employees st))"
    and "cast_ObjectId lib param = Some (emp_id e)" and "isFrozen e"
  shows "fst (put_employee lib u param body st) =
           (403, Failure ''This record is frozen and cannot be modified'')
       \<and> fst (delete_employee lib u param st) =
           (403, Failure ''This record is frozen and cannot be deleted'')"
  using findById_existing [OF assms(1-3)] assms(4)
  by (simp add: put_employee_def delete_employee_def)

theorem freeze_check_precedes_ownership_check_witness:
  "flo \<in> set (employees example_store)
   \<and> distinct (map emp_id (employees example_store))
   \<and> cast_ObjectId example_library ''000000000000000000000003'' = Some (emp_id flo)
   \<and> isFrozen flo
   \<and> role example_member \<noteq> ''admin''
   \<and> user_officeId example_member \<noteq> officeId flo
   \<and> fst (put_employee example_library example_member ''000000000000000000000003''
             empty_body example_store) =
       (403, Failure ''This record is frozen and cannot be modified'')
   \<and> fst (delete_employee example_library example_member ''000000000000000000000003''
             example_store) =
       (403, Failure ''This record is frozen and cannot be deleted'')
   \<and> role example_admin = ''admin''
   \<and> fst (put_employee example_library example_admin ''000000000000000000000003''
             empty_body example_store) =
       (403, Failure ''This record is frozen and cannot be modified'')
   \<and> fst (delete_employee example_library example_admin ''000000000000000000000003''
             example_store) =
       (403, Failure ''This record is frozen and cannot be deleted'')"
proof -
  have stored: "flo \<in> set (employees example_store)" by (simp add: example_store_def)
  have cast: "cast_ObjectId example_library ''000000000000000000000003'' = Some (emp_id flo)"
    by (simp add: castObjectId_flo flo_def)
  have frozen: "isFrozen flo" by (simp add: flo_def)
  have member: "role example_member \<noteq> ''admin''" by (simp add: example_member_def)
  have foreign: "user_officeId example_member \<noteq> officeId flo"
    by (simp add: example_member_def flo_def office_A_def office_B_def)
  have admin: "role example_admin = ''admin''" by (simp add: example_admin_def)
  show ?thesis
    using freeze_check_precedes_ownership_check
            [OF stored example_store_ids cast frozen, of example_member empty_body]
      freeze_check_precedes_ownership_check
            [OF stored example_store_ids cast frozen, of example_admin empty_body]
      stored example_store_ids cast frozen member foreign admin
    by simp
qed

subsection \<open>The report\<close>

lemma filter_matches_office:
  "filter (matches gte lte (if role u \<noteq> ''admin'' then Some (user_officeId u) else None)) docs =
   filter (matches gte lte None) (visible u docs)"
  by (induction docs) (auto simp: visible_def matches_def)

lemma filter_matches_all: "filter (matches None None None) docs = docs"
  by (induction docs) (auto simp: matches_def)

lemma filter_matches_range:
  "filter (matches (Some a) (Some b) None) docs =
   filter (\<lambda>d. a \<le> reportDate d \<and> reportDate d \<le> b) docs"
  by (induction docs) (auto simp: matches_def)

lemma report_query_officeId:
  "q_officeId (report_query newDate u startDate endDate) =
     (if role u \<noteq> ''admin'' then Some (user_officeId u) else None)"
  by (simp add: report_query_def)

lemma visible_example_admin: "visible example_admin (employees example_store) = [jo, al, flo]"
  by (simp add: visible_def example_admin_def example_store_def)

text \<open>
  C8. With both bounds given (non-empty, and read by \<^verbatim>\<open>new Date\<close> as the instants \<open>a\<close>
  and \<open>b\<close>), the report is exactly the records the caller sees whose \<open>reportDate\<close> is
  between \<open>a\<close> and \<open>b\<close>, both bounds included, in store order, with their count.
\<close>

theorem report_range_inclusive:
  assumes "startDate = Some s" and "s \<noteq> []" and "endDate = Some e" and "e \<noteq> []"
    and "newDate s = Some a" and "newDate e = Some b"
  shows "get_report newDate u startDate endDate st =
           (let found = filter (\<lambda>d. a \<le> reportDate d \<and> reportDate d \<le> b)
                          (visible u (employees st))
            in (200, Employee_list (length found) (map (populate_officeId (offices st)) found)))"
proof -
  have q: "q_reportDate (report_query newDate u startDate endDate) = Some (Some a, Some b)"
    using assms by (simp add: report_query_def)
  have "Employee_find (report_query newDate u startDate endDate) (employees st) =
          Inr (filter (\<lambda>d. a \<le> reportDate d \<and> reportDate d \<le> b) (visible u (employees st)))"
    by (simp add: Employee_find_def q report_query_officeId filter_matches_office
        filter_matches_range)
  then show ?thesis
    by (simp add: get_report_def Let_def)
qed

theorem report_range_inclusive_witness:
  "''2024-01-01'' \<noteq> [] \<and> ''2024-01-31'' \<noteq> []
   \<and> example_newDate ''2024-01-01'' = Some 1704067200000
   \<and> example_newDate ''2024-01-31'' = Some 1706659200000
   \<and> reportDate jo = 1704067200000 \<and> reportDate al = 1706659200000
   \<and> reportDate flo = 1706659200001
   \<and> get_report example_newDate example_admin (Some ''2024-01-01'') (Some ''2024-01-31'')
        example_store =
       (200, Employee_list 2 [(jo, None), (al, None)])"
proof -
  have a: "example_newDate ''2024-01-01'' = Some 1704067200000"
    and b: "example_newDate ''2024-01-31'' = Some 1706659200000"
    by (simp_all add: example_newDate_def)
  have dates: "reportDate jo = 1704067200000" "reportDate al = 1706659200000"
    "reportDate flo = 1706659200001"
    by (simp_all add: jo_def al_def flo_def)
  have none: "offices example_store = []" by (simp add: example_store_def)
  have "get_report example_newDate example_admin (Some ''2024-01-01'') (Some ''2024-01-31'')
          example_store =
        (200, Employee_list 2 [(jo, None), (al, None)])"
    using report_range_inclusive
            [of "Some ''2024-01-01''" "''2024-01-01''" "Some ''2024-01-31''" "''2024-01-31''"
                example_newDate 1704067200000 1706659200000 example_admin example_store]
      a b dates
    by (simp add: visible_example_admin populate_officeId_def none)
  then show ?thesis
    using a b dates by simp
qed

text \<open>
  C9. When one of the two bounds is absent or empty, no date filter is applied, whatever
  the other bound is: the report is the whole set of records the caller sees, the same
  response as with neither bound.
\<close>

theorem report_one_bound_missing:
  assumes "startDate = None \<or> startDate = Some [] \<or> endDate = None \<or> endDate = Some []"
  shows "get_report newDate u startDate endDate st = get_report newDate u None None st
       \<and> get_report newDate u startDate endDate st =
           (200, Employee_list (length (visible u (employees st)))
                   (map (populate_officeId (offices st)) (visible u (employees st))))"
proof -
  have q: "q_reportDate (report_query newDate u startDate endDate) = None"
    using assms by (auto simp: report_query_def split: option.splits)
  have f: "Employee_find (report_query newDate u startDate endDate) (employees st) =
             Inr (visible u (employees st))"
    by (simp add: Employee_find_def q report_query_officeId filter_matches_office
        filter_matches_all)
  have q0: "q_reportDate (report_query newDate u None None) = None"
    by (simp add: report_query_def)
  have f0: "Employee_find (report_query newDate u None None) (employees st) =
              Inr (visible u (employees st))"
    by (simp add: Employee_find_def q0 report_query_officeId filter_matches_office
        filter_matches_all)
  show ?thesis
    by (simp add: get_report_def f f0)
qed

theorem report_one_bound_missing_witness:
  "get_report example_newDate example_admin (Some ''2024-01-31'') None example_store =
     get_report example_newDate example_admin None None example_store
   \<and> get_report example_newDate example_admin (Some ''2024-01-31'') None example_store =
       (200, Employee_list 3 [(jo, None), (al, None), (flo, None)])
   \<and> get_report example_newDate example_admin (Some []) (Some ''not a date'') example_store =
       (200, Employee_list 3 [(jo, None), (al, None), (flo, None)])"
proof -
  have none: "offices example_store = []" by (simp add: example_store_def)
  have all: "(200, Employee_list (length (visible example_admin (employees example_store)))
               (map (populate_officeId (offices example_store))
                 (visible example_admin (employees example_store)))) =
             (200, Employee_list 3 [(jo, None), (al, None), (flo, None)])"
    by (simp add: visible_example_admin populate_officeId_def none)
  have p1: "Some ''2024-01-31'' = None \<or> Some ''2024-01-31'' = Some []
            \<or> (None :: string option) = None \<or> (None :: string option) = Some []"
    by simp
  have p2: "Some [] = None \<or> Some [] = Some ([] :: string)
            \<or> Some ''not a date'' = None \<or> Some ''not a date'' = Some []"
    by simp
  note one = report_one_bound_missing [OF p1, of example_newDate example_admin example_store]
  note other = report_one_bound_missing [OF p2, of example_newDate example_admin example_store]
  have 1: "get_report example_newDate example_admin (Some ''2024-01-31'') None example_store =
             get_report example_newDate example_admin None None example_store"
    by (rule one [THEN conjunct1])
  have 2: "get_report example_newDate example_admin (Some ''2024-01-31'') None example_store =
             (200, Employee_list 3 [(jo, None), (al, None), (flo, None)])"
    by (rule trans [OF one [THEN conjunct2] all])
  have 3: "get_report example_newDate example_admin (Some []) (Some ''not a date'')
             example_store =
           (200, Employee_list 3 [(jo, None), (al, None), (flo, None)])"
    by (rule trans [OF other [THEN conjunct2] all])
  show ?thesis
    using 1 2 3 by (intro conjI)
qed

text \<open>
  A bound that is given but is no date makes the store call fail, and the handler answers
  500.
\<close>

lemma report_invalid_date:
  assumes "startDate = Some s" and "s \<noteq> []" and "endDate = Some e" and "e \<noteq> []"
    and "newDate s = None \<or> newDate e = None"
  shows "get_report newDate u startDate endDate st = (500, Failure ''Server Error'')"
  using assms
  by (auto simp: get_report_def report_query_def Employee_find_def catch_all_def
      server_error_def split: option.splits)

subsection \<open>Creation\<close>

lemma trim_Jo: "trim ''Jo'' = ''Jo''"
  by (simp add: trim_def is_space_def)

text \<open>
  C3. When \<open>isRegisteredOnIGOT\<close> is false or absent in the body of a create request, the
  record that is created and stored has \<open>coursesEnrolled = 0\<close> and
  \<open>coursesCompleted = 0\<close>, whatever counts the body gives.
\<close>

theorem unregistered_create_forces_zero_counts:
  assumes "b_isRegisteredOnIGOT body \<noteq> Some True"
    and "post_employee lib new_id now u body st = ((201, Employee_data (Some d)), st')"
  shows "coursesEnrolled d = 0 \<and> coursesCompleted d = 0
       \<and> employees st' = employees st @ [d]"
  using assms
  by (auto simp: post_employee_def Employee_create_def pre_save_def Let_def
      catch_ValidationError_def server_error_def
      split: if_splits option.splits list.splits sum.splits prod.splits mongoose_error.splits)

theorem unregistered_create_forces_zero_counts_witness:
  "b_isRegisteredOnIGOT create_jo \<noteq> Some True
   \<and> b_coursesEnrolled create_jo = Some 5
   \<and> post_employee example_library ''000000000000000000000004'' 1706745600000 example_member
        create_jo example_store =
       ((201, Employee_data (Some created_jo)),
        example_store\<lparr>employees := [jo, al, flo, created_jo]\<rparr>)
   \<and> coursesEnrolled created_jo = 0 \<and> coursesCompleted created_jo = 0
   \<and> employees (example_store\<lparr>employees := [jo, al, flo, created_jo]\<rparr>) =
       employees example_store @ [created_jo]"
proof -
  have unregistered: "b_isRegisteredOnIGOT create_jo \<noteq> Some True"
    by (simp add: create_jo_def empty_body_def)
  have five: "b_coursesEnrolled create_jo = Some 5"
    by (simp add: create_jo_def empty_body_def)
  have created:
    "post_employee example_library ''000000000000000000000004'' 1706745600000 example_member
       create_jo example_store =
     ((201, Employee_data (Some created_jo)),
      example_store\<lparr>employees := [jo, al, flo, created_jo]\<rparr>)"
    by (simp add: post_employee_def Employee_create_def pre_save_def Employee_validate_def
        validate_name_def trim_Jo castObjectId_office_A validate_coursesEnrolled_def
        validate_coursesCompleted_def coursesEnrolled_validator_def
        coursesCompleted_validator_def this_document_def Let_def create_jo_def created_jo_def
        example_defs)
  show ?thesis
    using unregistered_create_forces_zero_counts [OF unregistered created] unregistered five
      created
    by simp
qed

subsection \<open>Validation and the checks of the handlers\<close>






subsection \<open>The dashboard\<close>














lemma toFixed2_zero: "toFixed2 0 = Some ''0.00''"
  by (simp add: toFixed2_def fixed2_def pad3_def digits.simps [of 0])













text \<open>
  The guard of the rate is \<^verbatim>\<open>totalCoursesEnrolled > 0\<close>: a sum below zero, which no route
  lets arise, would be rendered as \<^verbatim>\<open>'0.00'\<close> too.
\<close>

lemma dashboard_rate_guard:
  assumes "totalCoursesEnrolled (dashboard_summary fl found) \<le> 0"
  shows "completionRate (dashboard_summary fl found) = Some ''0.00''"
  using assms by (simp add: dashboard_summary_def Let_def toFixed2_zero)

subsection \<open>Where the routes fall short of the schema\<close>

lemma coursesEnrolled_validator_zero: "coursesEnrolled_validator this 0"
  by (simp add: coursesEnrolled_validator_def)

lemma update_first_map:
  assumes "\<And>d. g (f d) = g d"
  shows "map g (update_first p f docs) = map g docs"
  by (induction docs) (simp_all add: assms)

lemma set_frozen_updatedAt:
  "map updatedAt (employees (snd (set_frozen lib b message param st))) =
   map updatedAt (employees st)"
proof -
  have "updatedAt (Employee_set lib (only_isFrozen b) d) = updatedAt d" for d
    by (simp add: Employee_set_def only_isFrozen_def set_path_def)
  then have "map updatedAt (update_first p (Employee_set lib (only_isFrozen b)) docs) =
             map updatedAt docs" for p docs
    by (rule update_first_map)
  then show ?thesis
    by (auto simp: set_frozen_def Employee_findByIdAndUpdate_def Let_def
        split: sum.splits option.splits if_splits)
qed

text \<open>
  With \<^verbatim>\<open>this\<close> the query, the update validators reject every update that names
  \<open>coursesCompleted\<close> and every update that sets \<open>coursesEnrolled\<close> to another value than
  0; a rejected update is not answered 200 and writes nothing.
\<close>

lemma update_validators_reject_coursesCompleted:
  assumes "b_coursesCompleted body = Some n"
  shows "Employee_update_validators lib body \<noteq> []"
  using assms
  by (simp add: Employee_update_validators_def validate_coursesCompleted_def
      coursesCompleted_validator_def this_query_def)

lemma update_validators_reject_nonzero_coursesEnrolled:
  assumes "b_coursesEnrolled body = Some n" and "n \<noteq> 0"
  shows "Employee_update_validators lib body \<noteq> []"
  using assms
  by (simp add: Employee_update_validators_def validate_coursesEnrolled_def
      coursesEnrolled_validator_def this_query_def)

lemma put_employee_rejected_by_validators:
  assumes "Employee_update_validators lib body \<noteq> []"
  shows "fst (fst (put_employee lib u param body st)) \<noteq> 200
       \<and> snd (put_employee lib u param body st) = st"
  using assms
  by (auto simp: put_employee_def Employee_findByIdAndUpdate_def catch_ValidationError_def
      server_error_def split: sum.splits option.splits if_splits mongoose_error.splits)

text \<open>
  C1 does not hold of the update route. The validator of \<open>coursesCompleted\<close> is the only
  place where the two counts are compared, and an update that does not name
  \<open>coursesCompleted\<close> does not run it; the validator of \<open>coursesEnrolled\<close> accepts 0
  whatever \<^verbatim>\<open>this\<close> is. So a member of Jo's office who sends
  \<^verbatim>\<open>{ coursesEnrolled: 0 }\<close> for Jo (5 enrolled, 3 completed) is answered 200, and the
  stored record has 3 completed of 0 enrolled.
\<close>

theorem update_of_enrolled_alone_breaks_completed_le_enrolled:
  "put_employee example_library example_member ''000000000000000000000001''
     (empty_body\<lparr>b_coursesEnrolled := Some 0\<rparr>) example_store =
   ((200, Employee_data (Some (jo\<lparr>coursesEnrolled := 0\<rparr>))),
    example_store\<lparr>employees := [jo\<lparr>coursesEnrolled := 0\<rparr>, al, flo]\<rparr>)
   \<and> coursesCompleted (jo\<lparr>coursesEnrolled := 0\<rparr>) = 3
   \<and> coursesEnrolled (jo\<lparr>coursesEnrolled := 0\<rparr>) = 0"
  by (simp add: put_employee_def findById_def castObjectId_jo Employee_findByIdAndUpdate_def
      uncastable_def Employee_update_validators_def validate_coursesEnrolled_def
      coursesEnrolled_validator_zero Employee_set_def set_path_def example_defs)

text \<open>
  C4 does not hold of the routes that write with \<^verbatim>\<open>findByIdAndUpdate\<close>. Freezing and
  unfreezing never change an \<open>updatedAt\<close>, in any store and for any id; the handlers do
  not read the clock at all. Freezing Jo is answered 200 and Jo's \<open>updatedAt\<close> is still the
  time of creation; so it is after a successful update of Jo's name.
\<close>

theorem update_routes_leave_updatedAt:
  "map updatedAt (employees (snd (put_freeze lib param st))) = map updatedAt (employees st)
   \<and> map updatedAt (employees (snd (put_unfreeze lib param st))) = map updatedAt (employees st)
   \<and> put_freeze example_library ''000000000000000000000001'' example_store =
       ((200, Employee_message (Some (jo\<lparr>isFrozen := True\<rparr>))
                ''Employee record has been frozen''),
        example_store\<lparr>employees := [jo\<lparr>isFrozen := True\<rparr>, al, flo]\<rparr>)
   \<and> updatedAt (jo\<lparr>isFrozen := True\<rparr>) = createdAt jo
   \<and> put_employee example_library example_member ''000000000000000000000001''
        (empty_body\<lparr>b_name := Some ''Joanna''\<rparr>) example_store =
       ((200, Employee_data (Some (jo\<lparr>name := ''Joanna''\<rparr>))),
        example_store\<lparr>employees := [jo\<lparr>name := ''Joanna''\<rparr>, al, flo]\<rparr>)
   \<and> updatedAt (jo\<lparr>name := ''Joanna''\<rparr>) = createdAt jo"
proof -
  have 1: "map updatedAt (employees (snd (put_freeze lib param st))) =
           map updatedAt (employees st)"
    unfolding put_freeze_def by (rule set_frozen_updatedAt)
  have 2: "map updatedAt (employees (snd (put_unfreeze lib param st))) =
           map updatedAt (employees st)"
    unfolding put_unfreeze_def by (rule set_frozen_updatedAt)
  have 3: "put_freeze example_library ''000000000000000000000001'' example_store =
       ((200, Employee_message (Some (jo\<lparr>isFrozen := True\<rparr>))
                ''Employee record has been frozen''),
        example_store\<lparr>employees := [jo\<lparr>isFrozen := True\<rparr>, al, flo]\<rparr>)"
    by (simp add: put_freeze_def set_frozen_def findById_def castObjectId_jo
        Employee_findByIdAndUpdate_def uncastable_def only_isFrozen_def Employee_set_def
        set_path_def example_defs)
  have 4: "updatedAt (jo\<lparr>isFrozen := True\<rparr>) = createdAt jo"
    by (simp add: jo_def)
  have 5: "put_employee example_library example_member ''000000000000000000000001''
        (empty_body\<lparr>b_name := Some ''Joanna''\<rparr>) example_store =
       ((200, Employee_data (Some (jo\<lparr>name := ''Joanna''\<rparr>))),
        example_store\<lparr>employees := [jo\<lparr>name := ''Joanna''\<rparr>, al, flo]\<rparr>)"
    by (simp add: put_employee_def findById_def castObjectId_jo Employee_findByIdAndUpdate_def
        uncastable_def Employee_update_validators_def validate_name_def trim_def is_space_def
        Employee_set_def set_path_def example_defs)
  have 6: "updatedAt (jo\<lparr>name := ''Joanna''\<rparr>) = createdAt jo"
    by (simp add: jo_def)
  show ?thesis
    using 1 2 3 4 5 6 by (intro conjI)
qed

text \<open>
  C5 holds of the two read routes only. A parameter that is no ObjectId makes
  \<^verbatim>\<open>findById\<close> reject with a CastError; the handlers of \<^verbatim>\<open>GET /:id\<close> test
  \<^verbatim>\<open>err.kind === 'ObjectId'\<close> and answer 404, the handlers that update, delete, freeze
  and unfreeze do not and answer 500, for every caller, body and store.
\<close>

theorem malformed_id_is_server_error:
  assumes "cast_ObjectId lib param = None"
  shows "put_employee lib u param body st = ((500, Failure ''Server Error''), st)
       \<and> delete_employee lib u param st = ((500, Failure ''Server Error''), st)
       \<and> put_freeze lib param st = ((500, Failure ''Server Error''), st)
       \<and> put_unfreeze lib param st = ((500, Failure ''Server Error''), st)
       \<and> put_office lib param obody st = ((500, Failure ''Server Error''), st)
       \<and> delete_office lib param st = ((500, Failure ''Server Error''), st)
       \<and> get_employee lib u param st = (404, Failure ''Employee not found'')
       \<and> get_office lib u param st = (404, Failure ''Office not found'')"
  using assms
  by (simp add: put_employee_def delete_employee_def put_freeze_def put_unfreeze_def
      set_frozen_def put_office_def delete_office_def get_employee_def get_office_def
      findById_def catch_ValidationError_def catch_all_def catch_ObjectId_def
      server_error_def)

theorem malformed_id_is_server_error_witness:
  "cast_ObjectId example_library ''abc'' = None
   \<and> put_employee example_library example_admin ''abc'' empty_body example_store =
       ((500, Failure ''Server Error''), example_store)
   \<and> delete_employee example_library example_admin ''abc'' example_store =
       ((500, Failure ''Server Error''), example_store)
   \<and> put_freeze example_library ''abc'' example_store =
       ((500, Failure ''Server Error''), example_store)
   \<and> put_unfreeze example_library ''abc'' example_store =
       ((500, Failure ''Server Error''), example_store)
   \<and> put_office example_library ''abc'' example_office_body example_store =
       ((500, Failure ''Server Error''), example_store)
   \<and> delete_office example_library ''abc'' example_store =
       ((500, Failure ''Server Error''), example_store)
   \<and> get_employee example_library example_admin ''abc'' example_store =
       (404, Failure ''Employee not found'')
   \<and> get_office example_library example_admin ''abc'' example_store =
       (404, Failure ''Office not found'')"
proof -
  have c: "cast_ObjectId example_library ''abc'' = None"
    by (simp add: castObjectId_abc)
  show ?thesis
    using malformed_id_is_server_error
            [OF c, of example_admin empty_body example_store example_office_body] c
    by simp
qed

subsection \<open>What the routes do keep\<close>

text \<open>
  The bound that the dashboard relies on is kept by every employee route: no stored
  \<open>coursesEnrolled\<close> becomes negative. A record is created with
  \<open>coursesCompleted \<le> coursesEnrolled\<close> and with \<open>updatedAt\<close> the time of creation.
\<close>

lemma Employee_create_Inr:
  assumes "Employee_create lib new_id now nm off reg enr cmp rep by docs = Inr (d, docs')"
  shows "Employee_validate lib nm off (isRegisteredOnIGOT d) (coursesEnrolled d) (coursesCompleted d) = []
       \<and> updatedAt d = now \<and> docs' = docs @ [d]"
  using assms
  by (auto simp: Employee_create_def pre_save_def Let_def split: list.splits option.splits)

lemma Employee_validate_counts:
  assumes "Employee_validate lib nm off reg enr cmp = []"
  shows "0 \<le> enr \<and> cmp \<le> enr"
proof -
  from assms have "validate_coursesEnrolled (this_document reg enr) enr = []"
    and "validate_coursesCompleted (this_document reg enr) cmp = []"
    by (simp_all add: Employee_validate_def)
  then have "coursesEnrolled_validator (this_document reg enr) enr"
    and "coursesCompleted_validator (this_document reg enr) cmp"
    by (simp_all add: validate_coursesEnrolled_def validate_coursesCompleted_def split: if_splits)
  then show ?thesis
    by (auto simp: coursesEnrolled_validator_def coursesCompleted_validator_def this_document_def
        split: if_splits)
qed

lemma post_employee_created:
  assumes "post_employee lib new_id now u body st = ((201, Employee_data (Some d)), st')"
  shows "\<exists>nm off reg enr cmp rep.
           Employee_create lib new_id now nm off reg enr cmp rep (user_id u) (employees st) =
             Inr (d, employees st')"
  using assms
  by (auto simp: post_employee_def catch_ValidationError_def server_error_def
      split: if_splits sum.splits prod.splits mongoose_error.splits) blast+

lemma post_employee_counts:
  assumes "post_employee lib new_id now u body st = ((201, Employee_data (Some d)), st')"
  shows "0 \<le> coursesEnrolled d \<and> coursesCompleted d \<le> coursesEnrolled d
       \<and> updatedAt d = now \<and> employees st' = employees st @ [d]"
proof -
  from post_employee_created [OF assms] obtain nm off reg enr cmp rep where
    "Employee_create lib new_id now nm off reg enr cmp rep (user_id u) (employees st) =
       Inr (d, employees st')"
    by blast
  from Employee_create_Inr [OF this] Employee_validate_counts show ?thesis
    by blast
qed

lemma list_all_update_first:
  assumes "list_all P docs" and "\<And>d. P d \<Longrightarrow> P (f d)"
  shows "list_all P (update_first p f docs)"
  using assms(1) by (induction docs) (auto intro: assms(2))

lemma list_all_delete_first:
  assumes "list_all P docs"
  shows "list_all P (delete_first p docs)"
  using assms by (induction docs) auto

lemma validated_update_keeps_enrolled:
  assumes "Employee_update_validators lib upd = []" and "0 \<le> coursesEnrolled d"
  shows "0 \<le> coursesEnrolled (Employee_set lib upd d)"
  using assms
  by (auto simp: Employee_update_validators_def Employee_set_def set_path_def
      validate_coursesEnrolled_def coursesEnrolled_validator_def this_query_def
      split: option.splits if_splits)

lemma put_employee_keeps_enrolled:
  assumes "list_all (\<lambda>d. 0 \<le> coursesEnrolled d) (employees st)"
  shows "list_all (\<lambda>d. 0 \<le> coursesEnrolled d) (employees (snd (put_employee lib u param body st)))"
proof -
  have "list_all (\<lambda>d. 0 \<le> coursesEnrolled d)
          (update_first p (Employee_set lib body) (employees st))"
    if "Employee_update_validators lib body = []" for p
    using assms validated_update_keeps_enrolled [OF that] by (rule list_all_update_first)
  then show ?thesis
    using assms
    by (auto simp: put_employee_def Employee_findByIdAndUpdate_def Let_def
        split: sum.splits option.splits if_splits)
qed

lemma routes_keep_enrolled_nonnegative:
  assumes "list_all (\<lambda>d. 0 \<le> coursesEnrolled d) (employees st)"
  shows "list_all (\<lambda>d. 0 \<le> coursesEnrolled d) (employees (snd (post_employee lib new_id now u body st)))"
    and "list_all (\<lambda>d. 0 \<le> coursesEnrolled d) (employees (snd (put_employee lib u param body st)))"
    and "list_all (\<lambda>d. 0 \<le> coursesEnrolled d) (employees (snd (delete_employee lib u param st)))"
    and "list_all (\<lambda>d. 0 \<le> coursesEnrolled d) (employees (snd (put_freeze lib param st)))"
    and "list_all (\<lambda>d. 0 \<le> coursesEnrolled d) (employees (snd (put_unfreeze lib param st)))"
proof -
  show "list_all (\<lambda>d. 0 \<le> coursesEnrolled d) (employees (snd (post_employee lib new_id now u body st)))"
  proof (cases "post_employee lib new_id now u body st")
    case (Pair r st')
    show ?thesis
    proof (cases "\<exists>d. r = (201, Employee_data (Some d))")
      case True
      then obtain d where "post_employee lib new_id now u body st = ((201, Employee_data (Some d)), st')"
        using Pair by auto
      from post_employee_counts [OF this] show ?thesis using assms Pair by simp
    next
      case False
      then have "st' = st"
        using Pair
        by (auto simp: post_employee_def split: if_splits sum.splits prod.splits)
      then show ?thesis using assms Pair by simp
    qed
  qed
  show "list_all (\<lambda>d. 0 \<le> coursesEnrolled d) (employees (snd (put_employee lib u param body st)))"
    using assms by (rule put_employee_keeps_enrolled)
  show "list_all (\<lambda>d. 0 \<le> coursesEnrolled d) (employees (snd (delete_employee lib u param st)))"
    using assms
    by (auto simp: delete_employee_def findByIdAndDelete_def list_all_delete_first
        split: sum.splits option.splits if_splits)
  have frozen: "list_all (\<lambda>d. 0 \<le> coursesEnrolled d) (employees (snd (set_frozen lib b m param st)))" for b m
  proof -
    have "list_all (\<lambda>d. 0 \<le> coursesEnrolled d)
            (update_first p (Employee_set lib (only_isFrozen b)) (employees st))" for p
      using assms
      by (rule list_all_update_first) (simp add: Employee_set_def only_isFrozen_def set_path_def)
    then show ?thesis
      using assms
      by (auto simp: set_frozen_def Employee_findByIdAndUpdate_def Let_def
          split: sum.splits option.splits if_splits)
  qed
  show "list_all (\<lambda>d. 0 \<le> coursesEnrolled d) (employees (snd (put_freeze lib param st)))"
    unfolding put_freeze_def by (rule frozen)
  show "list_all (\<lambda>d. 0 \<le> coursesEnrolled d) (employees (snd (put_unfreeze lib param st)))"
    unfolding put_unfreeze_def by (rule frozen)
qed

end
